theory Spec2Isabelle
  imports Main "HOL-Library.Word"
begin

unbundle bit_operations_syntax

section \<open>Data model\<close>

text \<open>
  The three algorithms (Cohort-Eager in \<^verbatim>\<open>lib/CohortsEager.cpp\<close>, LLT-AMD64 and
  Pipeline-Turbo in \<^verbatim>\<open>libstm/algs\<close>) are C++ for a 64-bit machine: \<^verbatim>\<open>uintptr_t\<close>,
  \<^verbatim>\<open>intptr_t\<close> and pointers are 64-bit words, \<^verbatim>\<open>int32_t\<close> and \<^verbatim>\<open>uint32_t\<close> are 32-bit
  words. Signedness is a matter of how a word is read (\<open>sint\<close>, \<open>scast\<close>, \<open><s\<close>), not of
  its type.
\<close>

type_synonym uintptr_t = "64 word"
type_synonym intptr_t = "64 word"
type_synonym int32_t = "32 word"
type_synonym uint32_t = "32 word"

text \<open>A \<^verbatim>\<open>void**\<close>: the address of a word of user memory.\<close>
type_synonym addr = "64 word"

text \<open>An \<^verbatim>\<open>orec_t*\<close>: the index of an ownership record in the orec table.\<close>
type_synonym orec_ptr = nat

text \<open>
  \<^verbatim>\<open>orec_t\<close>: \<open>v_all\<close> is the field \<^verbatim>\<open>v.all\<close> (version number or lock word), \<open>orec_p\<close> is
  the field \<^verbatim>\<open>p\<close> (the version saved when the orec was locked).
\<close>
record orec_t =
  v_all :: uintptr_t
  orec_p :: uintptr_t

text \<open>An entry of the redo log: address, value and byte mask.\<close>
type_synonym WriteSetEntry = "addr \<times> uintptr_t \<times> uintptr_t"
type_synonym WriteSet = "WriteSetEntry list"
type_synonym OrecList = "orec_ptr list"

text \<open>
  The functions a descriptor's \<^verbatim>\<open>tmread\<close>, \<^verbatim>\<open>tmwrite\<close> and \<^verbatim>\<open>tmcommit\<close> pointers can point
  to (libstm swaps them when a transaction writes for the first time or goes turbo).
\<close>
datatype read_fn = ReadRO | ReadRW | ReadTurbo
datatype write_fn = WriteRO | WriteRW | WriteTurbo
datatype commit_fn = CommitRO | CommitRW | CommitTurbo

text \<open>
  The transaction descriptor (\<^verbatim>\<open>TX\<close> in lib, \<^verbatim>\<open>TxThread\<close> in libstm), with the fields the
  three algorithms use; \<open>order\<close> is signed (it is compared with \<open>- 1\<close>). The allocator and
  the user callbacks are external hooks with no effect on this state, and their calls are
  left out of the functions below.
\<close>
record TX =
  nesting_depth :: int32_t
  start_time :: uintptr_t
  ts_cache :: uintptr_t
  order :: intptr_t
  r_orecs :: OrecList
  writes :: WriteSet
  undo_log :: WriteSet
  locks :: OrecList
  my_lock :: uintptr_t
  turbo :: bool
  aborts :: nat
  commits_ro :: nat
  commits_rw :: nat
  tmread :: read_fn
  tmwrite :: write_fn
  tmcommit :: commit_fn

text \<open>
  The shared state: user memory, the orec table, the coordination variables of the three
  algorithms, and the hardware tick counter.
\<close>
record globals =
  mem :: "addr \<Rightarrow> uintptr_t"
  orecs :: "orec_ptr \<Rightarrow> orec_t"
  timestamp :: uintptr_t
  timestamp_max :: uintptr_t
  last_complete :: uintptr_t
  started :: int32_t
  cpending :: int32_t
  committed :: int32_t
  last_order :: int32_t
  inplace :: uint32_t
  tick :: uintptr_t
  threadcount :: nat

text \<open>
  Other threads. The code is written against concurrent threads: it spins until another
  thread changes a variable, re-reads an orec to see whether somebody wrote in between,
  and uses compare-and-swap. A run of one function is therefore given the finite list of
  what the other threads do to the shared state at the points where the function lets
  them in (\<open>yield\<close>): each turn of a spin loop, each fence of a check-twice read, and the
  gap between reading an orec and the compare-and-swap on it. When the list is used up
  the thread runs alone.
\<close>
type_synonym world = "globals \<times> (globals \<Rightarrow> globals) list"

fun yield :: "world \<Rightarrow> world" where
  "yield (s, []) = (s, [])"
| "yield (s, e # es) = (e s, es)"

text \<open>
  A busy-wait \<^verbatim>\<open>while (c);\<close>. Alone (empty list) a thread whose condition holds spins
  for ever: \<open>None\<close>.
\<close>
fun spin :: "(globals \<Rightarrow> bool) \<Rightarrow> world \<Rightarrow> world option" where
  "spin c (s, []) = (if c s then None else Some (s, []))"
| "spin c (s, e # es) = (if c s then spin c (e s, es) else Some (s, e # es))"

text \<open>
  How a call ends: it returns (a result and the state), it calls the non-returning abort
  (\<^verbatim>\<open>tmabort\<close>, \<^verbatim>\<open>_ITM_abortTransaction(TMConflict)\<close>) in the state given, it stops the
  process (\<^verbatim>\<open>UNRECOVERABLE\<close>), or it spins for ever.
\<close>
datatype ('a, 'b) outcome = Returns 'a | Aborts 'b | Unrecoverable | Spins

subsection \<open>Orecs, memory and the redo log\<close>

text \<open>The store \<^verbatim>\<open>o->v.all = x\<close>.\<close>
definition set_v_all :: "orec_ptr \<Rightarrow> uintptr_t \<Rightarrow> globals \<Rightarrow> globals" where
  "set_v_all oc x s = s\<lparr>orecs := (orecs s)(oc := (orecs s oc)\<lparr>v_all := x\<rparr>)\<rparr>"


text \<open>The store \<^verbatim>\<open>*addr = val\<close>.\<close>
definition store :: "addr \<Rightarrow> uintptr_t \<Rightarrow> globals \<Rightarrow> globals" where
  "store a x s = s\<lparr>mem := (mem s)(a := x)\<rparr>"

text \<open>
  Modelled from the spec: \<^verbatim>\<open>WriteSet::insert\<close> (the write set class is not among the
  sources). "Address-keyed; insert overwrites by last-write-wins within a transaction;
  iteration order must be stable (insertion order suffices)".
\<close>
fun WriteSet_insert :: "WriteSet \<Rightarrow> addr \<Rightarrow> uintptr_t \<Rightarrow> uintptr_t \<Rightarrow> WriteSet" where
  "WriteSet_insert [] addr val msk = [(addr, val, msk)]"
| "WriteSet_insert ((a, v, m) # ws) addr val msk =
     (if a = addr then (addr, val, msk) # ws
      else (a, v, m) # WriteSet_insert ws addr val msk)"

section \<open>Cohort-Eager\<close>

subsection \<open>Write\<close>

text \<open>
  \<^verbatim>\<open>Write<WordType>::operator()\<close>. \<^verbatim>\<open>get_orec\<close> (the hash from addresses to orecs) and
  \<^verbatim>\<open>WordType::Write\<close> (the in-place store of the template parameter, which for the
  logging word type also records the old value in the descriptor) are not among the
  sources and are parameters. The second branch is guarded by
  \<^verbatim>\<open>!tx->writes.size() && 0\<close>; it is translated as it stands, the \<^verbatim>\<open>WBR\<close> between its two
  tests being a point where other threads are let in.
\<close>
definition Write ::
  "(addr \<Rightarrow> orec_ptr) \<Rightarrow>
   (addr \<Rightarrow> uintptr_t \<Rightarrow> uintptr_t \<Rightarrow> TX \<times> globals \<Rightarrow> TX \<times> globals) \<Rightarrow>
   addr \<Rightarrow> uintptr_t \<Rightarrow> TX \<Rightarrow> uintptr_t \<Rightarrow> world \<Rightarrow> TX \<times> world" where
  "Write get_orec WordType_Write addr val tx msk w =
    (if turbo tx then
       (let oc = get_orec addr;
            s1 = set_v_all oc (scast (started (fst w))) (fst w);
            r = WordType_Write addr val msk (tx, s1)
        in (fst r, (snd r, snd w)))
     else if \<not> (length (writes tx) \<noteq> 0) \<and> (0::nat) \<noteq> 0 then
       (if cpending (fst w) + 1 = started (fst w) then
          (let w1 = yield ((fst w)\<lparr>inplace := 1\<rparr>, snd w) in
           if cpending (fst w1) + 1 = started (fst w1) then
             (let oc = get_orec addr;
                  s2 = set_v_all oc (scast (started (fst w1))) (fst w1);
                  r = WordType_Write addr val msk (tx, s2)
              in ((fst r)\<lparr>turbo := True\<rparr>, (snd r, snd w1)))
           else
             (tx\<lparr>writes := WriteSet_insert (writes tx) addr val msk\<rparr>,
              ((fst w1)\<lparr>inplace := 0\<rparr>, snd w1)))
        else (tx\<lparr>writes := WriteSet_insert (writes tx) addr val msk\<rparr>, w))
     else (tx\<lparr>writes := WriteSet_insert (writes tx) addr val msk\<rparr>, w))"

text \<open>The always-buffer write the specification describes: insert into the redo log.\<close>
definition buffer_write :: "addr \<Rightarrow> uintptr_t \<Rightarrow> TX \<Rightarrow> uintptr_t \<Rightarrow> world \<Rightarrow> TX \<times> world" where
  "buffer_write addr val tx msk w =
     (tx\<lparr>writes := WriteSet_insert (writes tx) addr val msk\<rparr>, w)"

subsection \<open>Validation and commit\<close>

text \<open>
  \<^verbatim>\<open>validate\<close>: the first orec of the read log that is newer than \<open>ts_cache\<close> makes the
  transaction count itself as committed, publish its order and abort.
\<close>
fun validate_loop :: "OrecList \<Rightarrow> TX \<Rightarrow> globals \<Rightarrow> (globals, globals) outcome" where
  "validate_loop [] tx s = Returns s"
| "validate_loop (i # rest) tx s =
     (let ivt = v_all (orecs s i) in
      if ivt > ts_cache tx then
        (let s1 = s\<lparr>committed := committed s + 1\<rparr>;
             s2 = s1\<lparr>last_complete := order tx\<rparr>
         in Aborts s2)
      else validate_loop rest tx s)"

definition validate :: "TX \<Rightarrow> globals \<Rightarrow> (globals, globals) outcome" where
  "validate tx s = validate_loop (r_orecs tx) tx s"

text \<open>
  Modelled from the spec: \<^verbatim>\<open>writeTo\<close> of a logged value (the logging types are not among
  the sources), the "write back" of a redo-log entry: the bytes of the value selected by
  its mask are stored at the address.
\<close>
definition writeTo :: "uintptr_t \<times> uintptr_t \<Rightarrow> addr \<Rightarrow> globals \<Rightarrow> globals" where
  "writeTo value a s = store a ((mem s a AND NOT (snd value)) OR (fst value AND snd value)) s"

text \<open>The write-back loop of the commit: mark the orec with the order, then store.\<close>
fun commit_writeback :: "(addr \<Rightarrow> orec_ptr) \<Rightarrow> WriteSet \<Rightarrow> TX \<Rightarrow> globals \<Rightarrow> globals" where
  "commit_writeback get_orec [] tx s = s"
| "commit_writeback get_orec ((a, v, m) # rest) tx s =
     (let oc = get_orec a;
          s1 = set_v_all oc (order tx) s;
          s2 = writeTo (v, m) a s1
      in commit_writeback get_orec rest tx s2)"

text \<open>
  \<^verbatim>\<open>alg_tm_end\<close>, for the descriptor \<^verbatim>\<open>Self\<close> of the calling thread. The three busy-waits
  are the places where other threads act.
\<close>
definition alg_tm_end :: "(addr \<Rightarrow> orec_ptr) \<Rightarrow> TX \<Rightarrow> world \<Rightarrow> (TX \<times> world, TX \<times> world) outcome" where
  "alg_tm_end get_orec self w =
    (let tx = self\<lparr>nesting_depth := nesting_depth self - 1\<rparr> in
     if nesting_depth tx \<noteq> 0 then Returns (tx, w)
     else if turbo tx then
       (let s1 = (fst w)\<lparr>cpending := cpending (fst w) + 1\<rparr>;
            tx1 = tx\<lparr>undo_log := [], r_orecs := [], commits_rw := commits_rw tx + 1\<rparr>
        in case spin (\<lambda>s. last_complete s \<noteq> scast (cpending s - 1)) (s1, snd w) of
             None \<Rightarrow> Spins
           | Some w2 \<Rightarrow>
               (let s3 = (fst w2)\<lparr>inplace := 0\<rparr>;
                    s4 = s3\<lparr>last_complete := scast (cpending s3)\<rparr>;
                    s5 = s4\<lparr>committed := committed s4 + 1\<rparr>
                in Returns (tx1\<lparr>turbo := False\<rparr>, (s5, snd w2))))
     else if \<not> (length (writes tx) \<noteq> 0) then
       (let s1 = (fst w)\<lparr>started := started (fst w) - 1\<rparr>
        in Returns (tx\<lparr>r_orecs := [], commits_ro := commits_ro tx + 1\<rparr>, (s1, snd w)))
     else
       (let s1 = (fst w)\<lparr>cpending := cpending (fst w) + 1\<rparr>;
            tx1 = tx\<lparr>order := scast (cpending s1)\<rparr>
        in case spin (\<lambda>s. last_complete s \<noteq> order tx1 - 1) (s1, snd w) of
             None \<Rightarrow> Spins
           | Some w2 \<Rightarrow>
              (case spin (\<lambda>s. cpending s <s started s) w2 of
                 None \<Rightarrow> Spins
               | Some w3 \<Rightarrow>
                  (case (if inplace (fst w3) = 1 \<or> order tx1 \<noteq> scast (last_order (fst w3))
                         then validate tx1 (fst w3) else Returns (fst w3)) of
                     Aborts s4 \<Rightarrow> Aborts (tx1, (s4, snd w3))
                   | Unrecoverable \<Rightarrow> Unrecoverable
                   | Spins \<Rightarrow> Spins
                   | Returns s4 \<Rightarrow>
                      (let s5 = commit_writeback get_orec (writes tx1) tx1 s4;
                           s6 = s5\<lparr>committed := committed s5 + 1\<rparr>;
                           s7 = s6\<lparr>last_order := started s6 + 1\<rparr>;
                           s8 = s7\<lparr>last_complete := order tx1\<rparr>
                       in Returns (tx1\<lparr>undo_log := [], r_orecs := [], writes := [],
                                       commits_rw := commits_rw tx1 + 1\<rparr>,
                                   (s8, snd w3)))))))"

text \<open>
  The part of the writing commit before validation: take an order from \<open>cpending\<close>, wait
  for the turn, wait until the whole cohort is ready.
\<close>
definition commit_waits :: "TX \<Rightarrow> world \<Rightarrow> (TX \<times> world) option" where
  "commit_waits tx w =
    (let s1 = (fst w)\<lparr>cpending := cpending (fst w) + 1\<rparr>;
         tx1 = tx\<lparr>order := scast (cpending s1)\<rparr>
     in case spin (\<lambda>s. last_complete s \<noteq> order tx1 - 1) (s1, snd w) of
          None \<Rightarrow> None
        | Some w2 \<Rightarrow>
           (case spin (\<lambda>s. cpending s <s started s) w2 of
              None \<Rightarrow> None
            | Some w3 \<Rightarrow> Some (tx1, w3)))"

text \<open>
  The part of the writing commit after validation: write-back, then \<open>committed\<close>,
  \<open>last_order\<close> and \<open>last_complete\<close>, then the resets.
\<close>
definition commit_finish :: "(addr \<Rightarrow> orec_ptr) \<Rightarrow> TX \<Rightarrow> world \<Rightarrow> TX \<times> world" where
  "commit_finish get_orec tx1 w =
    (let s5 = commit_writeback get_orec (writes tx1) tx1 (fst w);
         s6 = s5\<lparr>committed := committed s5 + 1\<rparr>;
         s7 = s6\<lparr>last_order := started s6 + 1\<rparr>;
         s8 = s7\<lparr>last_complete := order tx1\<rparr>
     in (tx1\<lparr>undo_log := [], r_orecs := [], writes := [],
              commits_rw := commits_rw tx1 + 1\<rparr>,
         (s8, snd w)))"

section \<open>Helpers declared outside the sources\<close>

text \<open>
  The three files use helpers of \<^verbatim>\<open>algs.hpp\<close>, of the write-set class and of the platform
  layer, none of which is among the sources. Each is modelled from what the
  specification says of it.
\<close>

text \<open>
  Modelled from the spec: \<^verbatim>\<open>GoTurbo\<close> of \<^verbatim>\<open>algs.hpp\<close>. "The source swaps read/write/commit
  pointers when a transaction transitions RO->RW or enters turbo": it stores the three
  pointers it is given.
\<close>
definition GoTurbo :: "TX \<Rightarrow> read_fn \<Rightarrow> write_fn \<Rightarrow> commit_fn \<Rightarrow> TX" where
  "GoTurbo tx r w c = tx\<lparr>tmread := r, tmwrite := w, tmcommit := c\<rparr>"

text \<open>
  Modelled from the spec: \<^verbatim>\<open>ResetToRO\<close> of \<^verbatim>\<open>algs.hpp\<close>, the same swap back to the
  read-only pointers.
\<close>
definition ResetToRO :: "TX \<Rightarrow> read_fn \<Rightarrow> write_fn \<Rightarrow> commit_fn \<Rightarrow> TX" where
  "ResetToRO tx r w c = tx\<lparr>tmread := r, tmwrite := w, tmcommit := c\<rparr>"

text \<open>
  Modelled from the spec: \<^verbatim>\<open>CheckTurboMode\<close> of \<^verbatim>\<open>algs.hpp\<close>. A transaction is in turbo
  mode when its read pointer is the turbo read.
\<close>
definition CheckTurboMode :: "TX \<Rightarrow> read_fn \<Rightarrow> bool" where
  "CheckTurboMode tx read_turbo = (tmread tx = read_turbo)"

text \<open>
  Modelled from the spec: \<^verbatim>\<open>PreRollback\<close> of \<^verbatim>\<open>algs.hpp\<close>. Of the descriptor's counters
  (\<open>aborts\<close>, \<open>commits_ro\<close>, \<open>commits_rw\<close>) a rollback counts \<open>aborts\<close>, as Cohort-Eager's
  \<^verbatim>\<open>alg_tm_rollback\<close> does in line.
\<close>
definition PreRollback :: "TX \<Rightarrow> TX" where
  "PreRollback tx = tx\<lparr>aborts := aborts tx + 1\<rparr>"

text \<open>
  Modelled from the spec: \<^verbatim>\<open>PostRollback\<close> of \<^verbatim>\<open>algs.hpp\<close>. What is left of a rollback
  after the counter and the buffers is the allocator's \<^verbatim>\<open>onTxAbort\<close> hook, which is
  external.
\<close>
definition PostRollback :: "TX \<Rightarrow> TX" where
  "PostRollback tx = tx"


text \<open>
  Modelled from the spec: the redo log's \<^verbatim>\<open>find\<close>, "used for RAW resolution": the value
  and mask logged for an address, if any.
\<close>
fun WriteSet_find :: "WriteSet \<Rightarrow> addr \<Rightarrow> (uintptr_t \<times> uintptr_t) option" where
  "WriteSet_find [] addr = None"
| "WriteSet_find ((a, v, m) # ws) addr = (if a = addr then Some (v, m) else WriteSet_find ws addr)"




text \<open>
  Modelled from the spec: \<^verbatim>\<open>faiptr\<close> of the platform layer, "fetch-add(timestamp, 1)",
  here on \<open>timestamp\<close>: it returns the old value and increments.
\<close>
definition faiptr_timestamp :: "globals \<Rightarrow> uintptr_t \<times> globals" where
  "faiptr_timestamp s = (timestamp s, s\<lparr>timestamp := timestamp s + 1\<rparr>)"

text \<open>
  Modelled from the spec: the macro \<^verbatim>\<open>MAXIMUM\<close>, the larger of two words (it "ensures the
  global clock \<open>timestamp \<ge> timestamp_max\<close>").
\<close>
definition MAXIMUM :: "uintptr_t \<Rightarrow> uintptr_t \<Rightarrow> uintptr_t" where
  "MAXIMUM x y = (if x > y then x else y)"

section \<open>LLT-AMD64\<close>

subsection \<open>Commit of a writer\<close>







subsection \<open>Reads\<close>

text \<open>
  \<^verbatim>\<open>LLTAMD64ReadRO\<close>: orec, fence, word, fence, orec. Other threads may act at the two
  fences. The call returns the word read and the new state, or aborts.
\<close>
definition LLTAMD64ReadRO ::
  "(addr \<Rightarrow> orec_ptr) \<Rightarrow> TX \<Rightarrow> addr \<Rightarrow> world \<Rightarrow>
   (uintptr_t \<times> TX \<times> world, TX \<times> world) outcome" where
  "LLTAMD64ReadRO get_orec tx addr w =
    (let oc = get_orec addr;
         ivt = v_all (orecs (fst w) oc);
         w1 = yield w;
         tmp = mem (fst w1) addr;
         w2 = yield w1;
         ivt2 = v_all (orecs (fst w2) oc)
     in if ivt \<le> start_time tx \<and> ivt = ivt2
        then Returns (tmp, tx\<lparr>r_orecs := r_orecs tx @ [oc]\<rparr>, w2)
        else Aborts (tx, w2))"

text \<open>
  Modelled from the spec: \<^verbatim>\<open>REDO_RAW_CLEANUP\<close> (a macro that is not among the sources).
  With byte masks in the redo log, a hit that does not cover the bytes asked for is
  resolved after the read from memory: the logged bytes replace those of the word read.
  (\<^verbatim>\<open>REDO_RAW_CHECK\<close>, "return the buffered value if hit", is written out in
  \<open>LLTAMD64ReadRW\<close>: a hit counts when the logged mask covers the mask asked for.)
\<close>
definition REDO_RAW_CLEANUP :: "uintptr_t \<Rightarrow> (uintptr_t \<times> uintptr_t) option \<Rightarrow> uintptr_t" where
  "REDO_RAW_CLEANUP tmp log =
     (case log of None \<Rightarrow> tmp | Some (v, m) \<Rightarrow> (tmp AND NOT m) OR (v AND m))"

text \<open>\<^verbatim>\<open>LLTAMD64ReadRW\<close>.\<close>
definition LLTAMD64ReadRW ::
  "(addr \<Rightarrow> orec_ptr) \<Rightarrow> TX \<Rightarrow> addr \<Rightarrow> uintptr_t \<Rightarrow> world \<Rightarrow>
   (uintptr_t \<times> TX \<times> world, TX \<times> world) outcome" where
  "LLTAMD64ReadRW get_orec tx addr msk w =
    (let log = WriteSet_find (writes tx) addr in
     case (case log of None \<Rightarrow> None
           | Some (v, m) \<Rightarrow> if msk AND m = msk then Some v else None) of
       Some v \<Rightarrow> Returns (v, tx, w)
     | None \<Rightarrow>
        (let oc = get_orec addr;
             ivt = v_all (orecs (fst w) oc);
             w1 = yield w;
             tmp = mem (fst w1) addr;
             w2 = yield w1;
             ivt2 = v_all (orecs (fst w2) oc);
             tmp1 = REDO_RAW_CLEANUP tmp log
         in if ivt \<le> start_time tx \<and> ivt = ivt2
            then Returns (tmp1, tx\<lparr>r_orecs := r_orecs tx @ [oc]\<rparr>, w2)
            else Aborts (tx, w2)))"

subsection \<open>Rollback and switching\<close>

text \<open>The loop of the unwinder: \<^verbatim>\<open>(*i)->v.all = (*i)->p\<close> for every orec of the lock list.\<close>
fun restore_locks :: "OrecList \<Rightarrow> globals \<Rightarrow> globals" where
  "restore_locks [] s = s"
| "restore_locks (i # rest) s = restore_locks rest (set_v_all i (orec_p (orecs s i)) s)"

text \<open>
  \<^verbatim>\<open>LLTAMD64Rollback\<close>. \<^verbatim>\<open>STM_ROLLBACK\<close> is a macro that is not among the sources; by the
  comment at its call it performs the redo log's writes to the exception object, that
  is, stores to user memory. It is a parameter: a function from the redo log and the
  memory to the memory.
\<close>
definition LLTAMD64Rollback ::
  "(WriteSet \<Rightarrow> (addr \<Rightarrow> uintptr_t) \<Rightarrow> (addr \<Rightarrow> uintptr_t)) \<Rightarrow> TX \<Rightarrow> globals \<Rightarrow> TX \<times> globals" where
  "LLTAMD64Rollback STM_ROLLBACK tx s =
    (let tx1 = PreRollback tx;
         s1 = s\<lparr>mem := STM_ROLLBACK (writes tx1) (mem s)\<rparr>;
         s2 = restore_locks (locks tx1) s1;
         tx2 = tx1\<lparr>r_orecs := [], writes := [], locks := []\<rparr>;
         tx3 = PostRollback tx2;
         tx4 = ResetToRO tx3 ReadRO WriteRO CommitRO
     in (tx4, s2))"

text \<open>
  \<^verbatim>\<open>LLTAMD64OnSwitchTo\<close>: the body is empty (its one statement is commented out). The
  state is the shared state and the array \<^verbatim>\<open>threads\<close> of registered descriptors.
\<close>
definition LLTAMD64OnSwitchTo :: "globals \<times> TX list \<Rightarrow> globals \<times> TX list" where
  "LLTAMD64OnSwitchTo st = st"

section \<open>Pipeline-Turbo\<close>

text \<open>\<^verbatim>\<open>PipelineTurboBegin\<close>.\<close>
definition PipelineTurboBegin :: "TX \<Rightarrow> globals \<Rightarrow> TX \<times> globals" where
  "PipelineTurboBegin tx s =
    (let r = (if order tx = - 1
              then (let f = faiptr_timestamp s in (tx\<lparr>order := 1 + fst f\<rparr>, snd f))
              else (tx, s));
         tx1 = (fst r)\<lparr>ts_cache := last_complete (snd r)\<rparr>
     in if ts_cache tx1 = order tx1 - 1
        then (GoTurbo tx1 ReadTurbo WriteTurbo CommitTurbo, snd r)
        else (tx1, snd r))"

text \<open>\<^verbatim>\<open>PipelineTurboRollback\<close>; \<^verbatim>\<open>STM_ROLLBACK\<close> is a parameter as above.\<close>
definition PipelineTurboRollback ::
  "(WriteSet \<Rightarrow> (addr \<Rightarrow> uintptr_t) \<Rightarrow> (addr \<Rightarrow> uintptr_t)) \<Rightarrow> TX \<Rightarrow> globals \<Rightarrow>
   (TX \<times> globals, unit) outcome" where
  "PipelineTurboRollback STM_ROLLBACK tx s =
    (let tx1 = PreRollback tx in
     if CheckTurboMode tx1 ReadTurbo then Unrecoverable
     else (let s1 = s\<lparr>mem := STM_ROLLBACK (writes tx1) (mem s)\<rparr>;
               tx2 = tx1\<lparr>r_orecs := [], writes := []\<rparr>;
               tx3 = PostRollback tx2
           in Returns (tx3, s1)))"

text \<open>The validation loop of \<^verbatim>\<open>PipelineTurboValidate\<close>.\<close>
fun PipelineTurboValidate_loop :: "OrecList \<Rightarrow> TX \<Rightarrow> globals \<Rightarrow> (unit, unit) outcome" where
  "PipelineTurboValidate_loop [] tx s = Returns ()"
| "PipelineTurboValidate_loop (i # rest) tx s =
     (let ivt = v_all (orecs s i) in
      if ivt > ts_cache tx then Aborts ()
      else PipelineTurboValidate_loop rest tx s)"

text \<open>Its write-back loop: mark the orec with the order, then store the value.\<close>
fun mark_and_writeback :: "(addr \<Rightarrow> orec_ptr) \<Rightarrow> WriteSet \<Rightarrow> TX \<Rightarrow> globals \<Rightarrow> globals" where
  "mark_and_writeback get_orec [] tx s = s"
| "mark_and_writeback get_orec ((a, v, m) # rest) tx s =
     (let oc = get_orec a;
          s1 = set_v_all oc (order tx) s;
          s2 = store a v s1
      in mark_and_writeback get_orec rest tx s2)"

definition PipelineTurboValidate ::
  "(addr \<Rightarrow> orec_ptr) \<Rightarrow> TX \<Rightarrow> uintptr_t \<Rightarrow> globals \<Rightarrow> (TX \<times> globals, TX \<times> globals) outcome" where
  "PipelineTurboValidate get_orec tx finish_cache s =
    (case PipelineTurboValidate_loop (r_orecs tx) tx s of
       Aborts u \<Rightarrow> Aborts (tx, s)
     | Unrecoverable \<Rightarrow> Unrecoverable
     | Spins \<Rightarrow> Spins
     | Returns u \<Rightarrow>
        (let tx1 = tx\<lparr>ts_cache := finish_cache\<rparr> in
         if ts_cache tx1 = order tx1 - 1 then
           (if length (writes tx1) \<noteq> 0 then
              (let s1 = mark_and_writeback get_orec (writes tx1) tx1 s;
                   tx2 = GoTurbo tx1 ReadTurbo WriteTurbo CommitTurbo
               in Returns (tx2, s1))
            else Returns (tx1, s))
         else Returns (tx1, s)))"

text \<open>
  \<^verbatim>\<open>PipelineTurboOnSwitchTo\<close>. The loop over \<^verbatim>\<open>threads[0 .. threadcount)\<close>; the array
  holds at least \<open>threadcount\<close> descriptors.
\<close>
function switch_loop :: "nat \<Rightarrow> nat \<Rightarrow> TX list \<Rightarrow> TX list" where
  "switch_loop i n ths =
     (if i < n then switch_loop (i + 1) n (ths[i := (ths ! i)\<lparr>order := - 1\<rparr>]) else ths)"
  by pat_completeness auto
termination
  by (relation "measure (\<lambda>(i, n, ths). n - i)") auto

definition PipelineTurboOnSwitchTo :: "globals \<times> TX list \<Rightarrow> globals \<times> TX list" where
  "PipelineTurboOnSwitchTo st =
    (let s1 = (fst st)\<lparr>timestamp := MAXIMUM (timestamp (fst st)) (timestamp_max (fst st))\<rparr>;
         s2 = s1\<lparr>last_complete := timestamp s1\<rparr>
     in (s2, switch_loop 0 (threadcount s2) (snd st)))"

section \<open>Example states\<close>

text \<open>A quiescent shared state and a fresh descriptor, used to instantiate the theorems.\<close>

definition g0 :: globals where
  "g0 = \<lparr>mem = (\<lambda>a. 0), orecs = (\<lambda>i. \<lparr>v_all = 0, orec_p = 0\<rparr>), timestamp = 0,
         timestamp_max = 0, last_complete = 0, started = 0, cpending = 0, committed = 0,
         last_order = 0, inplace = 0, tick = 0, threadcount = 0\<rparr>"

definition tx0 :: TX where
  "tx0 = \<lparr>nesting_depth = 0, start_time = 0, ts_cache = 0, order = - 1, r_orecs = [],
          writes = [], undo_log = [], locks = [], my_lock = 0, turbo = False, aborts = 0,
          commits_ro = 0, commits_rw = 0, tmread = ReadRO, tmwrite = WriteRO,
          tmcommit = CommitRO\<rparr>"

text \<open>A hash for the examples: eight-byte words, four orecs.\<close>
definition hash4 :: "addr \<Rightarrow> orec_ptr" where
  "hash4 a = unat (drop_bit 3 a) mod 4"

text \<open>
  A writer at the end of its transaction: it read through orec 1 and buffered one write.
  In \<open>gA\<close> it is the only member of its cohort and orec 1 is newer than its \<open>ts_cache\<close>.
\<close>
definition txA :: TX where
  "txA = tx0\<lparr>nesting_depth := 1, r_orecs := [1], writes := [(8, 5, - 1)]\<rparr>"

definition gA :: globals where
  "gA = g0\<lparr>orecs := (orecs g0)(1 := \<lparr>v_all = 3, orec_p = 0\<rparr>), started := 1\<rparr>"

text \<open>
  A cohort of two: the other member is already pending with order 1. While \<open>txA\<close> waits
  for its turn the other member commits (\<open>other_commit\<close>), marking orec 1 with its order.
\<close>
definition gB :: globals where
  "gB = g0\<lparr>started := 2, cpending := 1\<rparr>"

definition other_commit :: "globals \<Rightarrow> globals" where
  "other_commit s = set_v_all 1 1 (s\<lparr>committed := 1, last_complete := 1\<rparr>)"

text \<open>
  The same single-member cohort when \<open>last_order\<close> names the order \<open>txA\<close> is about to take:
  it is the first committer of its cohort.
\<close>
definition gF :: globals where
  "gF = gA\<lparr>last_order := 1\<rparr>"

text \<open>A read-only transaction at its end: two orecs read, nothing written.\<close>
definition txR :: TX where
  "txR = tx0\<lparr>nesting_depth := 1, r_orecs := [1, 2]\<rparr>"

text \<open>
  An LLT-AMD64 writer that started at tick 10, read through orec 0 and buffered writes to
  the words at 8 and 16 (orecs 1 and 2 under \<open>hash4\<close>); its lock word has the top bit
  set. In \<open>gL\<close> the tick counter is at 20 and both orecs are older than the start time.
\<close>
definition txL :: TX where
  "txL = tx0\<lparr>start_time := 10, my_lock := 9223372036854775809, r_orecs := [0],
           writes := [(8, 5, - 1), (16, 6, - 1)], tmread := ReadRW, tmwrite := WriteRW,
           tmcommit := CommitRW\<rparr>"

definition gL :: globals where
  "gL = g0\<lparr>tick := 20,
           orecs := (orecs g0)(1 := \<lparr>v_all = 3, orec_p = 0\<rparr>, 2 := \<lparr>v_all = 4, orec_p = 0\<rparr>)\<rparr>"


text \<open>Another writer commits to the word at 8 at tick 15.\<close>
definition other_writer :: "globals \<Rightarrow> globals" where
  "other_writer s = set_v_all 1 15 (store 8 9 s)"

text \<open>The same writer holding the locks on orecs 1 and 2, as acquisition leaves them.\<close>
definition txLk :: TX where
  "txLk = txL\<lparr>locks := [1, 2]\<rparr>"

definition gLk :: globals where
  "gLk = g0\<lparr>tick := 20,
            orecs := (orecs g0)(1 := \<lparr>v_all = 9223372036854775809, orec_p = 3\<rparr>,
                                2 := \<lparr>v_all = 9223372036854775809, orec_p = 4\<rparr>)\<rparr>"

text \<open>A writer whose logged value for the word at 8 covers the low byte only.\<close>
definition txLb :: TX where
  "txLb = txL\<lparr>writes := [(8, 5, 255)]\<rparr>"

text \<open>
  A Pipeline-Turbo writer with order 3 that last saw order 1 complete, and the same
  transaction once it runs in turbo mode; a reader with order 2.
\<close>
definition txP :: TX where
  "txP = tx0\<lparr>order := 3, ts_cache := 1, r_orecs := [1], writes := [(8, 5, - 1)],
           tmread := ReadRW, tmwrite := WriteRW, tmcommit := CommitRW\<rparr>"

definition txT :: TX where
  "txT = txP\<lparr>tmread := ReadTurbo, tmwrite := WriteTurbo, tmcommit := CommitTurbo\<rparr>"

definition txQ :: TX where
  "txQ = tx0\<lparr>order := 2, r_orecs := [1]\<rparr>"

text \<open>The state in which the reader validates: orders 1 and 2 are taken, order 1 is complete.\<close>
definition gQ :: globals where
  "gQ = g0\<lparr>timestamp := 2, last_complete := 1\<rparr>"

text \<open>
  The state in which the writer validates: orders up to 3 are taken, order 2 is complete,
  and orec 1 was last written by order 1.
\<close>
definition gP :: globals where
  "gP = g0\<lparr>timestamp := 3, last_complete := 2,
           orecs := (orecs g0)(1 := \<lparr>v_all = 1, orec_p = 0\<rparr>)\<rparr>"

text \<open>The state before a switch of algorithm: the clock was used as a mutex.\<close>
definition gS :: globals where
  "gS = g0\<lparr>timestamp_max := 5, threadcount := 2\<rparr>"

section \<open>Properties\<close>

subsection \<open>Cohort-Eager: the promotion branch of Write is dead\<close>

text \<open>
  C3. For every call of Cohort-Eager's Write with \<open>turbo\<close> false, whatever \<open>cpending\<close>,
  \<open>started\<close> and the size of the write set are, and whatever the other threads do, the
  call is the always-buffer write: it inserts \<open>(addr, val, mask)\<close> into the redo log and
  leaves everything else as it was. In particular shared memory, the orecs and \<open>inplace\<close>
  are untouched, \<open>turbo\<close> stays false, and the in-place store is never called.
\<close>
theorem Write_nonturbo_buffers:
  "\<not> turbo tx \<Longrightarrow>
   Write get_orec WordType_Write addr val tx msk w = buffer_write addr val tx msk w
   \<and> snd (Write get_orec WordType_Write addr val tx msk w) = w
   \<and> turbo (fst (Write get_orec WordType_Write addr val tx msk w)) = False
   \<and> fst (Write get_orec WordType_Write addr val tx msk w)
       = tx\<lparr>writes := WriteSet_insert (writes tx) addr val msk\<rparr>"
  by (simp add: Write_def buffer_write_def)

theorem Write_nonturbo_buffers_witness:
  "\<not> turbo txR
   \<and> cpending gA + 1 = started gA \<and> writes txR = []
   \<and> Write hash4 (\<lambda>a v m r. (fst r, store a v (snd r))) 8 5 txR (- 1) (gA, [other_commit])
       = (txR\<lparr>writes := [(8, 5, - 1)]\<rparr>, (gA, [other_commit]))"
  using Write_nonturbo_buffers [of txR hash4 "\<lambda>a v m r. (fst r, store a v (snd r))" 8 5 "- 1"
      "(gA, [other_commit])"]
  by (simp add: txR_def tx0_def gA_def g0_def buffer_write_def)

subsection \<open>Cohort-Eager: the writing commit\<close>

lemma spin_alone: "spin c (s, []) = Some w' \<Longrightarrow> w' = (s, [])"
  by (simp split: if_splits)

lemma validate_loop_char:
  "validate_loop rs tx s =
     (if \<exists>i\<in>set rs. ts_cache tx < v_all (orecs s i)
      then Aborts (s\<lparr>committed := committed s + 1, last_complete := order tx\<rparr>)
      else Returns s)"
  by (induction rs) (auto simp: Let_def)

lemma alg_tm_end_rw:
  assumes "nesting_depth tx = 1" "\<not> turbo tx" "writes tx \<noteq> []"
  shows "alg_tm_end get_orec tx w =
    (case commit_waits (tx\<lparr>nesting_depth := 0\<rparr>) w of
       None \<Rightarrow> Spins
     | Some (tx1, w3) \<Rightarrow>
        (if inplace (fst w3) = 1 \<or> order tx1 \<noteq> scast (last_order (fst w3))
         then (case validate tx1 (fst w3) of
                 Aborts s4 \<Rightarrow> Aborts (tx1, (s4, snd w3))
               | Returns s4 \<Rightarrow> Returns (commit_finish get_orec tx1 (s4, snd w3))
               | Unrecoverable \<Rightarrow> Unrecoverable
               | Spins \<Rightarrow> Spins)
         else Returns (commit_finish get_orec tx1 w3)))"
  using assms
  by (simp add: alg_tm_end_def commit_waits_def commit_finish_def Let_def validate_def
        validate_loop_char split: option.splits)

lemma commit_waits_fields:
  "commit_waits tx w = Some (tx1, w3) \<Longrightarrow>
     tx1 = tx\<lparr>order := scast (cpending (fst w) + 1)\<rparr>"
  by (auto simp: commit_waits_def Let_def split: option.splits)

lemma commit_waits_alone:
  "commit_waits tx (s, []) = Some (tx1, w3) \<Longrightarrow> w3 = (s\<lparr>cpending := cpending s + 1\<rparr>, [])"
  by (auto simp: commit_waits_def Let_def split: option.splits if_splits)

text \<open>
  C6. In the non-turbo writing commit, once the two waits are over (in state \<open>s3\<close>, with
  the order taken from \<open>cpending\<close>), validation is run exactly when \<open>inplace\<close> is 1 or the
  order differs from \<open>last_order\<close>; otherwise the commit goes straight to write-back.
  Validation aborts exactly when some orec of the read log has a version above
  \<open>ts_cache\<close>, and it then has incremented \<open>committed\<close> and stored the order in
  \<open>last_complete\<close>; the abort does not return (the outcome is \<open>Aborts\<close>, nothing
  after it is run). So the commit aborts iff validation is due and finds such an orec.
\<close>
theorem alg_tm_end_validation_gate:
  assumes "nesting_depth tx = 1" "\<not> turbo tx" "writes tx \<noteq> []"
      and "commit_waits (tx\<lparr>nesting_depth := 0\<rparr>) w = Some (tx1, (s3, es3))"
  shows "alg_tm_end get_orec tx w =
           (if inplace s3 = 1 \<or> order tx1 \<noteq> scast (last_order s3)
            then (case validate tx1 s3 of
                    Aborts s4 \<Rightarrow> Aborts (tx1, (s4, es3))
                  | Returns s4 \<Rightarrow> Returns (commit_finish get_orec tx1 (s4, es3))
                  | Unrecoverable \<Rightarrow> Unrecoverable
                  | Spins \<Rightarrow> Spins)
            else Returns (commit_finish get_orec tx1 (s3, es3)))
         \<and> validate tx1 s3 =
           (if \<exists>i\<in>set (r_orecs tx1). ts_cache tx1 < v_all (orecs s3 i)
            then Aborts (s3\<lparr>committed := committed s3 + 1, last_complete := order tx1\<rparr>)
            else Returns s3)
         \<and> ((\<exists>x. alg_tm_end get_orec tx w = Aborts x) \<longleftrightarrow>
              (inplace s3 = 1 \<or> order tx1 \<noteq> scast (last_order s3))
              \<and> (\<exists>i\<in>set (r_orecs tx). ts_cache tx < v_all (orecs s3 i)))"
proof -
  have tx1: "tx1 = tx\<lparr>nesting_depth := 0, order := scast (cpending (fst w) + 1)\<rparr>"
    using commit_waits_fields [OF assms(4)] by simp
  have a: "alg_tm_end get_orec tx w =
           (if inplace s3 = 1 \<or> order tx1 \<noteq> scast (last_order s3)
            then (case validate tx1 s3 of
                    Aborts s4 \<Rightarrow> Aborts (tx1, (s4, es3))
                  | Returns s4 \<Rightarrow> Returns (commit_finish get_orec tx1 (s4, es3))
                  | Unrecoverable \<Rightarrow> Unrecoverable
                  | Spins \<Rightarrow> Spins)
            else Returns (commit_finish get_orec tx1 (s3, es3)))"
    using assms(4) by (simp add: alg_tm_end_rw [OF assms(1-3)] cong: outcome.case_cong)
  have b: "validate tx1 s3 =
           (if \<exists>i\<in>set (r_orecs tx1). ts_cache tx1 < v_all (orecs s3 i)
            then Aborts (s3\<lparr>committed := committed s3 + 1, last_complete := order tx1\<rparr>)
            else Returns s3)"
    by (simp add: validate_def validate_loop_char)
  have c: "(\<exists>x. alg_tm_end get_orec tx w = Aborts x) \<longleftrightarrow>
              (inplace s3 = 1 \<or> order tx1 \<noteq> scast (last_order s3))
              \<and> (\<exists>i\<in>set (r_orecs tx). ts_cache tx < v_all (orecs s3 i))"
    unfolding a b by (simp add: tx1)
  from a b c show ?thesis by blast
qed

theorem alg_tm_end_validation_gate_witness:
  "nesting_depth txA = 1 \<and> \<not> turbo txA \<and> writes txA \<noteq> []
   \<and> commit_waits (txA\<lparr>nesting_depth := 0\<rparr>) (gB, [other_commit])
       = Some (txA\<lparr>nesting_depth := 0, order := 2\<rparr>, (other_commit (gB\<lparr>cpending := 2\<rparr>), []))
   \<and> alg_tm_end hash4 txA (gB, [other_commit])
       = Aborts (txA\<lparr>nesting_depth := 0, order := 2\<rparr>,
                 ((other_commit (gB\<lparr>cpending := 2\<rparr>))\<lparr>committed := 2, last_complete := 2\<rparr>, []))
   \<and> commit_waits (txA\<lparr>nesting_depth := 0\<rparr>) (gF, [])
       = Some (txA\<lparr>nesting_depth := 0, order := 1\<rparr>, (gF\<lparr>cpending := 1\<rparr>, []))
   \<and> inplace (gF\<lparr>cpending := 1\<rparr>) = 0 \<and> last_order (gF\<lparr>cpending := 1\<rparr>) = 1
   \<and> ts_cache txA < v_all (orecs (gF\<lparr>cpending := 1\<rparr>) 1)
   \<and> alg_tm_end hash4 txA (gF, [])
       = Returns (commit_finish hash4 (txA\<lparr>nesting_depth := 0, order := 1\<rparr>) (gF\<lparr>cpending := 1\<rparr>, []))"
proof -
  have h1: "nesting_depth txA = 1" "\<not> turbo txA" "writes txA \<noteq> []"
    by (simp_all add: txA_def tx0_def)
  have h2: "commit_waits (txA\<lparr>nesting_depth := 0\<rparr>) (gB, [other_commit])
           = Some (txA\<lparr>nesting_depth := 0, order := 2\<rparr>, (other_commit (gB\<lparr>cpending := 2\<rparr>), []))"
    by (simp add: commit_waits_def txA_def tx0_def gB_def g0_def other_commit_def set_v_all_def Let_def)
  have h3: "commit_waits (txA\<lparr>nesting_depth := 0\<rparr>) (gF, [])
       = Some (txA\<lparr>nesting_depth := 0, order := 1\<rparr>, (gF\<lparr>cpending := 1\<rparr>, []))"
    by (simp add: commit_waits_def txA_def tx0_def gF_def gA_def g0_def Let_def)
  have f: "inplace (gF\<lparr>cpending := 1\<rparr>) = 0" "last_order (gF\<lparr>cpending := 1\<rparr>) = 1"
      "ts_cache txA < v_all (orecs (gF\<lparr>cpending := 1\<rparr>) 1)"
    by (simp_all add: gF_def gA_def g0_def txA_def tx0_def)
  from alg_tm_end_validation_gate [OF h1 h2, of hash4, THEN conjunct1]
  have a: "alg_tm_end hash4 txA (gB, [other_commit])
       = Aborts (txA\<lparr>nesting_depth := 0, order := 2\<rparr>,
                 ((other_commit (gB\<lparr>cpending := 2\<rparr>))\<lparr>committed := 2, last_complete := 2\<rparr>, []))"
    by (simp add: validate_def txA_def tx0_def gB_def g0_def other_commit_def set_v_all_def)
  from alg_tm_end_validation_gate [OF h1 h3, of hash4, THEN conjunct1] f
  have b: "alg_tm_end hash4 txA (gF, [])
       = Returns (commit_finish hash4 (txA\<lparr>nesting_depth := 0, order := 1\<rparr>) (gF\<lparr>cpending := 1\<rparr>, []))"
    by simp
  from h1 h2 h3 f a b show ?thesis by blast
qed

text \<open>
  C9. Whenever the commit ends in an abort, it is the writing commit, the abort comes
  from validation, and nothing of the redo log has reached shared memory: user memory
  and the orec table are those of the state in which the waits ended (and, for a thread
  running alone, those of the state in which the commit was called), and the redo log
  is still whole.
\<close>
theorem alg_tm_end_abort_before_writeback:
  assumes "alg_tm_end get_orec tx w = Aborts (tx', (s', es'))"
  shows "(\<exists>s3. commit_waits (tx\<lparr>nesting_depth := nesting_depth tx - 1\<rparr>) w
                 = Some (tx', (s3, es'))
              \<and> mem s' = mem s3 \<and> orecs s' = orecs s3)
         \<and> writes tx' = writes tx \<and> writes tx \<noteq> [] \<and> \<not> turbo tx
         \<and> (snd w = [] \<longrightarrow> mem s' = mem (fst w) \<and> orecs s' = orecs (fst w))"
proof -
  let ?tx = "tx\<lparr>nesting_depth := nesting_depth tx - 1\<rparr>"
  from assms have nd: "nesting_depth tx - 1 = 0" and nt: "\<not> turbo tx" and wr: "writes tx \<noteq> []"
    by (auto simp: alg_tm_end_def Let_def split: if_splits option.splits)
  from nd have nd1: "nesting_depth tx = 1" by simp
  have e: "alg_tm_end get_orec tx w =
    (case commit_waits (tx\<lparr>nesting_depth := 0\<rparr>) w of
       None \<Rightarrow> Spins
     | Some (tx1, w3) \<Rightarrow>
        (if inplace (fst w3) = 1 \<or> order tx1 \<noteq> scast (last_order (fst w3))
         then (case validate tx1 (fst w3) of
                 Aborts s4 \<Rightarrow> Aborts (tx1, (s4, snd w3))
               | Returns s4 \<Rightarrow> Returns (commit_finish get_orec tx1 (s4, snd w3))
               | Unrecoverable \<Rightarrow> Unrecoverable
               | Spins \<Rightarrow> Spins)
         else Returns (commit_finish get_orec tx1 w3)))"
    by (rule alg_tm_end_rw [OF nd1 nt wr])
  from assms obtain tx1 w3 where cw: "commit_waits (tx\<lparr>nesting_depth := 0\<rparr>) w = Some (tx1, w3)"
    unfolding e by (auto split: option.splits)
  from assms have ab: "validate tx1 (fst w3) = Aborts s'" and t: "tx' = tx1" and es: "es' = snd w3"
    unfolding e cw by (auto split: if_splits outcome.splits)
  from ab have s': "s' = (fst w3)\<lparr>committed := committed (fst w3) + 1, last_complete := order tx1\<rparr>"
    by (simp add: validate_def validate_loop_char split: if_splits)
  have p1: "commit_waits ?tx w = Some (tx', (fst w3, es'))
            \<and> mem s' = mem (fst w3) \<and> orecs s' = orecs (fst w3)"
    using cw t es s' nd by simp
  have p2: "writes tx' = writes tx"
    using commit_waits_fields [OF cw] t by simp
  have p3: "snd w = [] \<longrightarrow> mem s' = mem (fst w) \<and> orecs s' = orecs (fst w)"
  proof
    assume "snd w = []"
    then have "w = (fst w, [])" by (cases w) simp
    with cw have "commit_waits (tx\<lparr>nesting_depth := 0\<rparr>) (fst w, []) = Some (tx1, w3)" by simp
    from commit_waits_alone [OF this] show "mem s' = mem (fst w) \<and> orecs s' = orecs (fst w)"
      using s' by simp
  qed
  from p1 p2 p3 wr nt show ?thesis by blast
qed

theorem alg_tm_end_abort_before_writeback_witness:
  "alg_tm_end hash4 txA (gA, []) =
     Aborts (txA\<lparr>nesting_depth := 0, order := 1\<rparr>,
             (gA\<lparr>cpending := 1, committed := 1, last_complete := 1\<rparr>, []))
   \<and> mem (gA\<lparr>cpending := 1, committed := 1, last_complete := 1\<rparr>) = mem gA
   \<and> orecs (gA\<lparr>cpending := 1, committed := 1, last_complete := 1\<rparr>) = orecs gA
   \<and> writes (txA\<lparr>nesting_depth := 0, order := 1\<rparr>) = writes txA"
proof -
  have h: "alg_tm_end hash4 txA (gA, []) =
     Aborts (txA\<lparr>nesting_depth := 0, order := 1\<rparr>,
             (gA\<lparr>cpending := 1, committed := 1, last_complete := 1\<rparr>, []))"
    by (simp add: alg_tm_end_def txA_def gA_def tx0_def g0_def Let_def validate_def)
  from alg_tm_end_abort_before_writeback [OF h] h show ?thesis by simp
qed

subsection \<open>Cohort-Eager: the read-only commit\<close>

text \<open>
  C10. An outermost, non-turbo commit with an empty write set returns at once, whatever
  the shared state and the other threads are (no busy-wait is entered: the list of the
  other threads' actions is not touched). It decrements \<open>started\<close>, increments
  \<open>commits_ro\<close> and resets \<open>r_orecs\<close>; \<open>cpending\<close>, \<open>committed\<close>, \<open>last_complete\<close>,
  \<open>last_order\<close>, \<open>inplace\<close>, the descriptor's \<open>order\<close>, user memory and the orecs are
  unchanged.
\<close>
theorem alg_tm_end_read_only:
  assumes "nesting_depth tx = 1" "\<not> turbo tx" "writes tx = []"
  shows "\<exists>tx' s'. alg_tm_end get_orec tx (s, es) = Returns (tx', (s', es))
           \<and> tx' = tx\<lparr>nesting_depth := 0, r_orecs := [], commits_ro := commits_ro tx + 1\<rparr>
           \<and> s' = s\<lparr>started := started s - 1\<rparr>
           \<and> started s' = started s - 1 \<and> commits_ro tx' = commits_ro tx + 1
           \<and> r_orecs tx' = []
           \<and> cpending s' = cpending s \<and> committed s' = committed s
           \<and> last_complete s' = last_complete s \<and> last_order s' = last_order s
           \<and> inplace s' = inplace s \<and> order tx' = order tx
           \<and> mem s' = mem s \<and> orecs s' = orecs s"
  using assms by (simp add: alg_tm_end_def)

theorem alg_tm_end_read_only_witness:
  "nesting_depth txR = 1 \<and> \<not> turbo txR \<and> writes txR = []
   \<and> alg_tm_end hash4 txR (gA, [other_commit])
      = Returns (txR\<lparr>nesting_depth := 0, r_orecs := [], commits_ro := 1\<rparr>,
                 (gA\<lparr>started := 0\<rparr>, [other_commit]))"
proof -
  have h: "nesting_depth txR = 1" "\<not> turbo txR" "writes txR = []"
    by (simp_all add: txR_def tx0_def)
  from alg_tm_end_read_only [OF h, of hash4 gA "[other_commit]"] h show ?thesis
    by (auto simp: txR_def tx0_def gA_def g0_def)
qed

subsection \<open>Stores to orecs and memory\<close>

lemma store_proj:
  "orecs (store a x s) = orecs s"
  "mem (store a x s) = (mem s)(a := x)"
  by (simp_all add: store_def)

lemma set_v_all_proj:
  "mem (set_v_all i x s) = mem s"
  "v_all (orecs (set_v_all i x s) j) = (if j = i then x else v_all (orecs s j))"
  "orec_p (orecs (set_v_all i x s) j) = orec_p (orecs s j)"
  "tick (set_v_all i x s) = tick s"
  by (simp_all add: set_v_all_def)

text \<open>The redo log stays keyed by address: an insert never duplicates an address.\<close>

lemma WriteSet_insert_fst:
  "fst ` set (WriteSet_insert ws addr val msk) = insert addr (fst ` set ws)"
  by (induction ws addr val msk rule: WriteSet_insert.induct) auto

lemma WriteSet_insert_distinct:
  "distinct (map fst ws) \<Longrightarrow> distinct (map fst (WriteSet_insert ws addr val msk))"
proof (induction ws addr val msk rule: WriteSet_insert.induct)
  case (1 addr val msk)
  show ?case by simp
next
  case (2 a v m ws addr val msk)
  then show ?case
    using WriteSet_insert_fst [of ws addr val msk] by auto
qed

subsection \<open>LLT-AMD64: the writing commit\<close>










subsection \<open>LLT-AMD64: reads\<close>

text \<open>
  C5. An LLT-AMD64 read of \<open>addr\<close> reads the orec's version (\<open>ivt1\<close>), then, other
  threads having possibly acted, the word at \<open>addr\<close> (\<open>tmp\<close>), then, other threads having
  possibly acted again, the orec's version (\<open>ivt2\<close>). It returns \<open>tmp\<close> with the orec
  appended to \<open>r_orecs\<close> iff \<open>ivt1 = ivt2\<close> and \<open>ivt1 \<le> start_time\<close>, and aborts otherwise.
  The read of a writer looks into the redo log first: an entry for \<open>addr\<close> whose mask
  covers the mask asked for is returned as it is, with the descriptor and the shared
  state untouched (the orecs are not looked at and no other thread is let in); without
  an entry the read is that of a read-only transaction; with an entry that does not
  cover the mask the check is the same and the logged bytes replace those of \<open>tmp\<close>.
\<close>
theorem LLTAMD64_read_check_twice:
  "(let oc = get_orec addr;
        ivt1 = v_all (orecs (fst w) oc);
        w1 = yield w;
        tmp = mem (fst w1) addr;
        w2 = yield w1;
        ivt2 = v_all (orecs (fst w2) oc)
    in LLTAMD64ReadRO get_orec tx addr w =
         (if ivt1 = ivt2 \<and> ivt1 \<le> start_time tx
          then Returns (tmp, tx\<lparr>r_orecs := r_orecs tx @ [oc]\<rparr>, w2)
          else Aborts (tx, w2))
       \<and> ((\<exists>r. LLTAMD64ReadRO get_orec tx addr w = Returns r)
            \<longleftrightarrow> ivt1 = ivt2 \<and> ivt1 \<le> start_time tx)
       \<and> (\<forall>v m. WriteSet_find (writes tx) addr = Some (v, m) \<and> msk AND m = msk \<longrightarrow>
             LLTAMD64ReadRW get_orec tx addr msk w = Returns (v, tx, w))
       \<and> (WriteSet_find (writes tx) addr = None \<longrightarrow>
             LLTAMD64ReadRW get_orec tx addr msk w = LLTAMD64ReadRO get_orec tx addr w)
       \<and> (\<forall>v m. WriteSet_find (writes tx) addr = Some (v, m) \<and> msk AND m \<noteq> msk \<longrightarrow>
             LLTAMD64ReadRW get_orec tx addr msk w =
               (if ivt1 = ivt2 \<and> ivt1 \<le> start_time tx
                then Returns ((tmp AND NOT m) OR (v AND m), tx\<lparr>r_orecs := r_orecs tx @ [oc]\<rparr>, w2)
                else Aborts (tx, w2))))"
  by (auto simp: LLTAMD64ReadRO_def LLTAMD64ReadRW_def Let_def REDO_RAW_CLEANUP_def)

theorem LLTAMD64_read_check_twice_witness:
  "LLTAMD64ReadRO hash4 txL 8 (gL, []) = Returns (0, txL\<lparr>r_orecs := [0, 1]\<rparr>, (gL, []))
   \<and> LLTAMD64ReadRO hash4 txL 8 (gL, [other_writer]) = Aborts (txL, (other_writer gL, []))
   \<and> LLTAMD64ReadRO hash4 txL 8 (gL, [\<lambda>s. s, other_writer]) = Aborts (txL, (other_writer gL, []))
   \<and> WriteSet_find (writes txL) 8 = Some (5, - 1)
   \<and> LLTAMD64ReadRW hash4 txL 8 (- 1) (gL, [other_writer]) = Returns (5, txL, (gL, [other_writer]))
   \<and> WriteSet_find (writes txL) 24 = None
   \<and> LLTAMD64ReadRW hash4 txL 24 (- 1) (gL, []) = Returns (0, txL\<lparr>r_orecs := [0, 3]\<rparr>, (gL, []))
   \<and> WriteSet_find (writes txLb) 8 = Some (5, 255)
   \<and> LLTAMD64ReadRW hash4 txLb 8 (- 1) (store 8 768 gL, [])
       = Returns (773, txLb\<lparr>r_orecs := [0, 1]\<rparr>, (store 8 768 gL, []))"
proof -
  have h4: "hash4 8 = 1" "hash4 24 = 3"
    by (simp_all add: hash4_def)
  have f: "WriteSet_find (writes txL) 8 = Some (5, - 1)" "WriteSet_find (writes txL) 24 = None"
          "WriteSet_find (writes txLb) 8 = Some (5, 255)"
    by (simp_all add: txL_def txLb_def)
  note t1 = LLTAMD64_read_check_twice [of hash4 8 "(gL, [])" txL "- 1", unfolded Let_def]
  note t2 = LLTAMD64_read_check_twice [of hash4 8 "(gL, [other_writer])" txL "- 1", unfolded Let_def]
  note t3 = LLTAMD64_read_check_twice [of hash4 8 "(gL, [\<lambda>s. s, other_writer])" txL "- 1",
      unfolded Let_def]
  note t4 = LLTAMD64_read_check_twice [of hash4 24 "(gL, [])" txL "- 1", unfolded Let_def]
  note t5 = LLTAMD64_read_check_twice [of hash4 8 "(store 8 768 gL, [])" txLb "- 1",
      unfolded Let_def]
  have a: "LLTAMD64ReadRO hash4 txL 8 (gL, []) = Returns (0, txL\<lparr>r_orecs := [0, 1]\<rparr>, (gL, []))"
    using t1 [THEN conjunct1]
    by (simp add: h4 gL_def g0_def txL_def tx0_def)
  have b: "LLTAMD64ReadRO hash4 txL 8 (gL, [other_writer]) = Aborts (txL, (other_writer gL, []))"
    using t2 [THEN conjunct1]
    by (simp add: h4 gL_def g0_def txL_def tx0_def other_writer_def set_v_all_def store_def)
  have c: "LLTAMD64ReadRO hash4 txL 8 (gL, [\<lambda>s. s, other_writer]) = Aborts (txL, (other_writer gL, []))"
    using t3 [THEN conjunct1]
    by (simp add: h4 gL_def g0_def txL_def tx0_def other_writer_def set_v_all_def store_def)
  have d: "LLTAMD64ReadRW hash4 txL 8 (- 1) (gL, [other_writer]) = Returns (5, txL, (gL, [other_writer]))"
    using t2 [THEN conjunct2, THEN conjunct2, THEN conjunct1, rule_format, of 5 "- 1"] f(1)
    by simp
  have e: "LLTAMD64ReadRW hash4 txL 24 (- 1) (gL, []) = Returns (0, txL\<lparr>r_orecs := [0, 3]\<rparr>, (gL, []))"
    using t4 [THEN conjunct2, THEN conjunct2, THEN conjunct2, THEN conjunct1, rule_format, OF f(2)]
      t4 [THEN conjunct1]
    by (simp add: h4 gL_def g0_def txL_def tx0_def)
  have g: "LLTAMD64ReadRW hash4 txLb 8 (- 1) (store 8 768 gL, [])
       = Returns (773, txLb\<lparr>r_orecs := [0, 1]\<rparr>, (store 8 768 gL, []))"
    using t5 [THEN conjunct2, THEN conjunct2, THEN conjunct2, THEN conjunct2, rule_format,
        of 5 255] f(3)
    by (simp add: h4 gL_def g0_def txLb_def txL_def tx0_def store_def)
  from a b c d e g f show ?thesis by simp
qed

subsection \<open>LLT-AMD64: rollback\<close>

lemma restore_locks_frame:
  "mem (restore_locks ls s) = mem s"
  "orec_p (orecs (restore_locks ls s) i) = orec_p (orecs s i)"
  by (induction ls arbitrary: s) (simp_all add: set_v_all_proj)

lemma restore_locks_v_all:
  "v_all (orecs (restore_locks ls s) i) =
     (if i \<in> set ls then orec_p (orecs s i) else v_all (orecs s i))"
  by (induction ls arbitrary: s) (simp_all add: set_v_all_proj)

text \<open>
  C8. After the rollback of LLT-AMD64 every orec of the lock list has as its version the
  value its \<open>p\<close> field held (the version saved when it was locked); the \<open>p\<close> fields and the
  versions of the other orecs are as before; and \<open>r_orecs\<close>, \<open>writes\<close> and \<open>locks\<close> are
  empty.
\<close>
theorem LLTAMD64Rollback_restores:
  assumes "LLTAMD64Rollback STM_ROLLBACK tx s = (tx', s')"
  shows "(\<forall>i\<in>set (locks tx). v_all (orecs s' i) = orec_p (orecs s i))
         \<and> (\<forall>i. i \<notin> set (locks tx) \<longrightarrow> v_all (orecs s' i) = v_all (orecs s i))
         \<and> (\<forall>i. orec_p (orecs s' i) = orec_p (orecs s i))
         \<and> r_orecs tx' = [] \<and> writes tx' = [] \<and> locks tx' = []"
  using assms
  by (auto simp: LLTAMD64Rollback_def Let_def PreRollback_def PostRollback_def ResetToRO_def
      restore_locks_v_all restore_locks_frame)

theorem LLTAMD64Rollback_restores_witness:
  "locks txLk = [1, 2]
   \<and> v_all (orecs gLk 1) = 9223372036854775809 \<and> orec_p (orecs gLk 1) = 3
   \<and> orec_p (orecs gLk 2) = 4
   \<and> v_all (orecs (snd (LLTAMD64Rollback (\<lambda>ws m. m) txLk gLk)) 1) = 3
   \<and> v_all (orecs (snd (LLTAMD64Rollback (\<lambda>ws m. m) txLk gLk)) 2) = 4
   \<and> r_orecs (fst (LLTAMD64Rollback (\<lambda>ws m. m) txLk gLk)) = []
   \<and> writes (fst (LLTAMD64Rollback (\<lambda>ws m. m) txLk gLk)) = []
   \<and> locks (fst (LLTAMD64Rollback (\<lambda>ws m. m) txLk gLk)) = []"
proof -
  have h: "LLTAMD64Rollback (\<lambda>ws m. m) txLk gLk
           = (fst (LLTAMD64Rollback (\<lambda>ws m. m) txLk gLk), snd (LLTAMD64Rollback (\<lambda>ws m. m) txLk gLk))"
    by simp
  have l: "locks txLk = [1, 2]" by (simp add: txLk_def)
  have g: "v_all (orecs gLk 1) = 9223372036854775809" "orec_p (orecs gLk 1) = 3"
          "orec_p (orecs gLk 2) = 4"
    by (simp_all add: gLk_def)
  from LLTAMD64Rollback_restores [OF h] l g show ?thesis by simp
qed

subsection \<open>Pipeline-Turbo: validation and promotion\<close>

lemma PipelineTurboValidate_loop_char:
  "PipelineTurboValidate_loop rs tx s =
     (if \<exists>i\<in>set rs. ts_cache tx < v_all (orecs s i) then Aborts () else Returns ())"
  by (induction rs) (auto simp: Let_def)

lemma mark_and_writeback_v_all:
  "v_all (orecs (mark_and_writeback get_orec ws tx s) i) =
     (if i \<in> set (map (\<lambda>e. get_orec (fst e)) ws) then order tx else v_all (orecs s i))"
proof (induction ws arbitrary: s)
  case Nil
  show ?case by simp
next
  case (Cons e ws)
  obtain a v m where e: "e = (a, v, m)" by (cases e)
  show ?case
    by (simp add: e Let_def Cons.IH store_proj set_v_all_proj)
qed

lemma mark_and_writeback_mem_other:
  "a \<notin> fst ` set ws \<Longrightarrow> mem (mark_and_writeback get_orec ws tx s) a = mem s a"
  by (induction ws arbitrary: s) (auto simp: Let_def set_v_all_proj store_proj)

lemma mark_and_writeback_mem:
  "distinct (map fst ws) \<Longrightarrow> (a, v, m) \<in> set ws \<Longrightarrow>
   mem (mark_and_writeback get_orec ws tx s) a = v"
proof (induction ws arbitrary: s)
  case Nil
  then show ?case by simp
next
  case (Cons e ws)
  obtain a' v' m' where e: "e = (a', v', m')" by (cases e)
  show ?case
  proof (cases "(a, v, m) = e")
    case True
    with Cons.prems e have "a \<notin> fst ` set ws" by auto
    with True e show ?thesis
      by (simp add: Let_def mark_and_writeback_mem_other) (simp add: store_proj set_v_all_proj)
  next
    case False
    with Cons.prems have "(a, v, m) \<in> set ws" "distinct (map fst ws)" by auto
    with Cons.IH e show ?thesis by (simp add: Let_def)
  qed
qed

text \<open>
  C2, as the code has it. \<open>PipelineTurboValidate\<close> aborts iff some orec of \<open>r_orecs\<close> has a
  version above \<open>ts_cache\<close>. Otherwise \<open>ts_cache\<close> becomes \<open>finish_cache\<close>, and if that equals
  \<open>order - 1\<close> and the write set is not empty, the write set is flushed and the transaction
  enters turbo mode: afterwards the orec of every written address carries \<open>order\<close>, every
  address of the (address-keyed) write set holds its logged value, and the other words of
  memory are unchanged. With an empty write set, or with \<open>finish_cache\<close> different from
  \<open>order - 1\<close>, nothing but \<open>ts_cache\<close> changes: the transaction keeps its mode.
\<close>
theorem PipelineTurboValidate_promotes_writers:
  "PipelineTurboValidate get_orec tx finish_cache s =
     (if \<exists>i\<in>set (r_orecs tx). ts_cache tx < v_all (orecs s i) then Aborts (tx, s)
      else if finish_cache = order tx - 1 \<and> writes tx \<noteq> []
      then Returns (GoTurbo (tx\<lparr>ts_cache := finish_cache\<rparr>) ReadTurbo WriteTurbo CommitTurbo,
                    mark_and_writeback get_orec (writes tx) tx s)
      else Returns (tx\<lparr>ts_cache := finish_cache\<rparr>, s))
   \<and> CheckTurboMode (GoTurbo (tx\<lparr>ts_cache := finish_cache\<rparr>) ReadTurbo WriteTurbo CommitTurbo) ReadTurbo
   \<and> (\<forall>e\<in>set (writes tx).
        v_all (orecs (mark_and_writeback get_orec (writes tx) tx s) (get_orec (fst e))) = order tx)
   \<and> (distinct (map fst (writes tx)) \<longrightarrow>
        (\<forall>e\<in>set (writes tx).
           mem (mark_and_writeback get_orec (writes tx) tx s) (fst e) = fst (snd e)))
   \<and> (\<forall>a. a \<notin> fst ` set (writes tx) \<longrightarrow>
           mem (mark_and_writeback get_orec (writes tx) tx s) a = mem s a)"
proof -
  have ord: "mark_and_writeback get_orec ws (tx\<lparr>ts_cache := c\<rparr>) s'
           = mark_and_writeback get_orec ws tx s'" for ws s' c
    by (induction ws arbitrary: s') (auto simp: Let_def)
  have a: "PipelineTurboValidate get_orec tx finish_cache s =
     (if \<exists>i\<in>set (r_orecs tx). ts_cache tx < v_all (orecs s i) then Aborts (tx, s)
      else if finish_cache = order tx - 1 \<and> writes tx \<noteq> []
      then Returns (GoTurbo (tx\<lparr>ts_cache := finish_cache\<rparr>) ReadTurbo WriteTurbo CommitTurbo,
                    mark_and_writeback get_orec (writes tx) tx s)
      else Returns (tx\<lparr>ts_cache := finish_cache\<rparr>, s))"
    by (simp add: PipelineTurboValidate_def PipelineTurboValidate_loop_char Let_def ord)
  have b: "CheckTurboMode (GoTurbo (tx\<lparr>ts_cache := finish_cache\<rparr>) ReadTurbo WriteTurbo CommitTurbo) ReadTurbo"
    by (simp add: CheckTurboMode_def GoTurbo_def)
  have c: "\<forall>e\<in>set (writes tx).
        v_all (orecs (mark_and_writeback get_orec (writes tx) tx s) (get_orec (fst e))) = order tx"
    by (simp add: mark_and_writeback_v_all)
  have d: "distinct (map fst (writes tx)) \<longrightarrow>
        (\<forall>e\<in>set (writes tx).
           mem (mark_and_writeback get_orec (writes tx) tx s) (fst e) = fst (snd e))"
    using mark_and_writeback_mem [of "writes tx" _ _ _ get_orec tx s] by auto
  have e: "\<forall>a. a \<notin> fst ` set (writes tx) \<longrightarrow>
           mem (mark_and_writeback get_orec (writes tx) tx s) a = mem s a"
    by (simp add: mark_and_writeback_mem_other)
  from a b c d e show ?thesis by blast
qed

theorem PipelineTurboValidate_promotes_writers_witness:
  "\<not> (\<exists>i\<in>set (r_orecs txP). ts_cache txP < v_all (orecs gP i))
   \<and> 2 = order txP - 1 \<and> writes txP \<noteq> [] \<and> distinct (map fst (writes txP))
   \<and> (\<exists>tx' s'. PipelineTurboValidate hash4 txP 2 gP = Returns (tx', s')
         \<and> CheckTurboMode tx' ReadTurbo \<and> ts_cache tx' = 2
         \<and> v_all (orecs s' 1) = 3 \<and> mem s' 8 = 5 \<and> mem s' 16 = 0)
   \<and> PipelineTurboValidate hash4 txP 2 (set_v_all 1 2 gP) = Aborts (txP, set_v_all 1 2 gP)"
proof -
  have h4: "hash4 8 = 1"
    by (simp add: hash4_def)
  have h: "\<not> (\<exists>i\<in>set (r_orecs txP). ts_cache txP < v_all (orecs gP i))"
     "2 = order txP - 1" "writes txP \<noteq> []" "distinct (map fst (writes txP))"
     "(8, 5, - 1) \<in> set (writes txP)" "16 \<notin> fst ` set (writes txP)"
    by (simp_all add: txP_def tx0_def gP_def g0_def)
  have st: "\<exists>i\<in>set (r_orecs txP). ts_cache txP < v_all (orecs (set_v_all 1 2 gP) i)"
    by (simp add: txP_def tx0_def set_v_all_proj)
  note t = PipelineTurboValidate_promotes_writers [of hash4 txP 2 gP]
  note u = PipelineTurboValidate_promotes_writers [of hash4 txP 2 "set_v_all 1 2 gP"]
  from u [THEN conjunct1] st
  have ab: "PipelineTurboValidate hash4 txP 2 (set_v_all 1 2 gP) = Aborts (txP, set_v_all 1 2 gP)"
    by simp
  from t [THEN conjunct1] h(1-3)
  have r: "PipelineTurboValidate hash4 txP 2 gP
        = Returns (GoTurbo (txP\<lparr>ts_cache := 2\<rparr>) ReadTurbo WriteTurbo CommitTurbo,
                   mark_and_writeback hash4 (writes txP) txP gP)"
    by simp
  from t [THEN conjunct2, THEN conjunct1]
  have m: "CheckTurboMode (GoTurbo (txP\<lparr>ts_cache := 2\<rparr>) ReadTurbo WriteTurbo CommitTurbo) ReadTurbo" .
  from t [THEN conjunct2, THEN conjunct2, THEN conjunct1, rule_format, OF h(5)]
  have o1: "v_all (orecs (mark_and_writeback hash4 (writes txP) txP gP) 1) = 3"
    by (simp add: h4) (simp add: txP_def)
  from t [THEN conjunct2, THEN conjunct2, THEN conjunct2, THEN conjunct1, rule_format, OF h(4) h(5)]
  have m1: "mem (mark_and_writeback hash4 (writes txP) txP gP) 8 = 5"
    by simp
  from t [THEN conjunct2, THEN conjunct2, THEN conjunct2, THEN conjunct2, rule_format, OF h(6)]
  have m2: "mem (mark_and_writeback hash4 (writes txP) txP gP) 16 = 0"
    by (simp add: gP_def g0_def)
  have tc: "ts_cache (GoTurbo (txP\<lparr>ts_cache := 2\<rparr>) ReadTurbo WriteTurbo CommitTurbo) = 2"
    by (simp add: GoTurbo_def)
  from h(1-4) ab r m o1 m1 m2 tc show ?thesis by blast
qed

text \<open>
  The claim as stated fails for a transaction without writes: the reader \<open>txQ\<close> has order 2
  and validates once order 1 is complete (\<open>finish_cache = 1\<close>); afterwards
  \<open>ts_cache = order - 1\<close>, and it is not in turbo mode.
\<close>
theorem PipelineTurboValidate_reader_not_promoted:
  "PipelineTurboValidate hash4 txQ (last_complete gQ) gQ = Returns (txQ\<lparr>ts_cache := 1\<rparr>, gQ)
   \<and> ts_cache (txQ\<lparr>ts_cache := 1\<rparr>) = order (txQ\<lparr>ts_cache := 1\<rparr>) - 1
   \<and> \<not> CheckTurboMode (txQ\<lparr>ts_cache := 1\<rparr>) ReadTurbo"
  by (simp add: PipelineTurboValidate_def Let_def txQ_def tx0_def gQ_def g0_def CheckTurboMode_def)

subsection \<open>Pipeline-Turbo: rollback keeps the order\<close>

text \<open>
  C7. The rollback of a transaction in turbo mode stops the process. Any other rollback
  returns with \<open>r_orecs\<close> and \<open>writes\<close> empty and \<open>order\<close> as it was (and leaves the clock
  alone); hence, for a transaction that had an order, the next begin, in whatever shared
  state it runs, does not take a new order from \<open>timestamp\<close>: the retry has the same
  order.
\<close>
theorem PipelineTurboRollback_keeps_order:
  "(CheckTurboMode tx ReadTurbo \<longrightarrow> PipelineTurboRollback STM_ROLLBACK tx s = Unrecoverable)
   \<and> (\<not> CheckTurboMode tx ReadTurbo \<longrightarrow>
        (\<exists>tx' s'. PipelineTurboRollback STM_ROLLBACK tx s = Returns (tx', s')
           \<and> r_orecs tx' = [] \<and> writes tx' = [] \<and> order tx' = order tx
           \<and> timestamp s' = timestamp s
           \<and> (order tx \<noteq> - 1 \<longrightarrow>
                (\<forall>s2. order (fst (PipelineTurboBegin tx' s2)) = order tx
                      \<and> timestamp (snd (PipelineTurboBegin tx' s2)) = timestamp s2))))"
  by (auto simp: PipelineTurboRollback_def PipelineTurboBegin_def Let_def CheckTurboMode_def
      PreRollback_def PostRollback_def GoTurbo_def)

theorem PipelineTurboRollback_keeps_order_witness:
  "CheckTurboMode txT ReadTurbo \<and> PipelineTurboRollback (\<lambda>ws m. m) txT gP = Unrecoverable
   \<and> \<not> CheckTurboMode txP ReadTurbo \<and> order txP = 3 \<and> order txP \<noteq> - 1
   \<and> PipelineTurboRollback (\<lambda>ws m. m) txP gP
       = Returns (txP\<lparr>aborts := 1, r_orecs := [], writes := []\<rparr>, gP)
   \<and> order (fst (PipelineTurboBegin (txP\<lparr>aborts := 1, r_orecs := [], writes := []\<rparr>) gP)) = 3
   \<and> timestamp (snd (PipelineTurboBegin (txP\<lparr>aborts := 1, r_orecs := [], writes := []\<rparr>) gP)) = 3"
proof -
  have h: "CheckTurboMode txT ReadTurbo" "\<not> CheckTurboMode txP ReadTurbo" "order txP = 3"
      "order txP \<noteq> - 1"
    by (simp_all add: CheckTurboMode_def txT_def txP_def tx0_def)
  have r: "PipelineTurboRollback (\<lambda>ws m. m) txP gP
       = Returns (txP\<lparr>aborts := 1, r_orecs := [], writes := []\<rparr>, gP)"
    by (simp add: PipelineTurboRollback_def PreRollback_def PostRollback_def CheckTurboMode_def
        Let_def txP_def tx0_def)
  note t = PipelineTurboRollback_keeps_order [of txT "\<lambda>ws m. m" gP]
  note u = PipelineTurboRollback_keeps_order [of txP "\<lambda>ws m. m" gP]
  from t h(1) have f: "PipelineTurboRollback (\<lambda>ws m. m) txT gP = Unrecoverable" by blast
  from u h(2) h(4) r
  have b: "order (fst (PipelineTurboBegin (txP\<lparr>aborts := 1, r_orecs := [], writes := []\<rparr>) gP)) = order txP
         \<and> timestamp (snd (PipelineTurboBegin (txP\<lparr>aborts := 1, r_orecs := [], writes := []\<rparr>) gP)) = timestamp gP"
    by auto
  have "timestamp gP = 3" by (simp add: gP_def)
  with h f r b show ?thesis by simp
qed

subsection \<open>Switching to an algorithm\<close>

declare switch_loop.simps [simp del]

lemma switch_loop_length: "length (switch_loop i n ths) = length ths"
proof (induction i n ths rule: switch_loop.induct)
  case (1 i n ths)
  show ?case
  proof (cases "i < n")
    case True
    with "1" show ?thesis by (subst switch_loop.simps) simp
  next
    case False
    then show ?thesis by (subst switch_loop.simps) simp
  qed
qed

lemma switch_loop_order:
  "j < length ths \<Longrightarrow>
   order (switch_loop i n ths ! j) = (if i \<le> j \<and> j < n then - 1 else order (ths ! j))"
proof (induction i n ths rule: switch_loop.induct)
  case (1 i n ths)
  show ?case
  proof (cases "i < n")
    case True
    with "1" show ?thesis
      by (subst switch_loop.simps) (auto simp: nth_list_update)
  next
    case False
    then show ?thesis by (subst switch_loop.simps) auto
  qed
qed

lemma MAXIMUM_ge: "y \<le> MAXIMUM x y" "x \<le> MAXIMUM x y"
  by (auto simp: MAXIMUM_def not_less less_imp_le)

text \<open>
  C1, as the code has it. \<open>PipelineTurboOnSwitchTo\<close> leaves \<open>timestamp \<ge> timestamp_max\<close>,
  \<open>last_complete = timestamp\<close>, and \<open>order = - 1\<close> in each of the \<open>threadcount\<close> registered
  descriptors. \<open>LLTAMD64OnSwitchTo\<close> changes nothing: it does not touch the clock.
\<close>
theorem OnSwitchTo_effects:
  assumes "threadcount s \<le> length ths"
      and "PipelineTurboOnSwitchTo (s, ths) = (s', ths')"
  shows "timestamp s' \<ge> timestamp_max s' \<and> last_complete s' = timestamp s'
         \<and> length ths' = length ths
         \<and> (\<forall>i<threadcount s'. order (ths' ! i) = - 1)
         \<and> LLTAMD64OnSwitchTo (s, ths) = (s, ths)"
  using assms
  by (auto simp: PipelineTurboOnSwitchTo_def Let_def MAXIMUM_ge switch_loop_length
      switch_loop_order LLTAMD64OnSwitchTo_def)

theorem OnSwitchTo_effects_witness:
  "threadcount gS \<le> length [tx0\<lparr>order := 4\<rparr>, tx0\<lparr>order := 3\<rparr>]
   \<and> PipelineTurboOnSwitchTo (gS, [tx0\<lparr>order := 4\<rparr>, tx0\<lparr>order := 3\<rparr>])
      = (gS\<lparr>timestamp := 5, last_complete := 5\<rparr>, [tx0, tx0])
   \<and> timestamp (gS\<lparr>timestamp := 5, last_complete := 5\<rparr>)
       \<ge> timestamp_max (gS\<lparr>timestamp := 5, last_complete := 5\<rparr>)
   \<and> threadcount (gS\<lparr>timestamp := 5, last_complete := 5\<rparr>) = 2
   \<and> order ([tx0, tx0] ! 0) = - 1 \<and> order ([tx0, tx0] ! 1) = - 1"
proof -
  have h1: "threadcount gS \<le> length [tx0\<lparr>order := 4\<rparr>, tx0\<lparr>order := 3\<rparr>]"
    by (simp add: gS_def)
  have h2: "PipelineTurboOnSwitchTo (gS, [tx0\<lparr>order := 4\<rparr>, tx0\<lparr>order := 3\<rparr>])
      = (gS\<lparr>timestamp := 5, last_complete := 5\<rparr>, [tx0, tx0])"
    by (simp add: PipelineTurboOnSwitchTo_def Let_def MAXIMUM_def gS_def g0_def tx0_def
        switch_loop.simps [of 0] switch_loop.simps [of "Suc 0"]
        switch_loop.simps [of "Suc (Suc 0)"] numeral_2_eq_2)
  from OnSwitchTo_effects [OF h1 h2] h1 h2 show ?thesis by (simp add: gS_def tx0_def)
qed

text \<open>
  The claim as stated fails for LLT-AMD64: switching to it from a state in which the clock
  is behind \<open>timestamp_max\<close> leaves it behind.
\<close>
theorem LLTAMD64OnSwitchTo_clock_behind:
  "\<not> timestamp (fst (LLTAMD64OnSwitchTo (gS, [tx0, tx0])))
       \<ge> timestamp_max (fst (LLTAMD64OnSwitchTo (gS, [tx0, tx0])))"
  by (simp add: LLTAMD64OnSwitchTo_def gS_def g0_def)

end
